theory Spec2Isabelle
  imports Complex_Main
begin

section \<open>The spectrogram plotter of spectrum-view.py\<close>

text \<open>
  The script is a Python 2 program: \<open>VesnaSpectrumPlot\<close> keeps a 256 by 256 array of
  power values, \<open>callback\<close> resamples one sweep onto 256 frequencies with SciPy's
  \<open>interp1d\<close>, writes it into the row under the cursor and draws the array.

  Frequencies are modelled as reals. A power value is a float that arrives from outside:
  a finite number, an infinity or NaN. The code itself never computes with a power
  value; it only copies the rows that the interpolator returns.
\<close>

datatype sample = Finite real | PosInf | NegInf | NaN

subsection \<open>NumPy: linspace, row assignment, roll\<close>

datatype error = ValueError | IndexError | ZeroDivisionError

text \<open>\<open>linspace(start, stop, num)\<close> with the end point included.\<close>

definition linspace :: "real \<Rightarrow> real \<Rightarrow> nat \<Rightarrow> real list" where
  "linspace start stop num =
     (if num = 1 then [start]
      else map (\<lambda>i. start + real i * ((stop - start) / real (num - 1))) [0..<num])"

text \<open>
  \<open>a[i] = row\<close> on a two-dimensional array: a negative index counts from the end, an
  index outside the array raises IndexError, a row of the wrong length raises
  ValueError unless it has one element, which is broadcast.
\<close>

definition setitem :: "'a list list \<Rightarrow> int \<Rightarrow> 'a list \<Rightarrow> error + 'a list list" where
  "setitem a i row =
     (let n = int (length a) in
      if i < - n \<or> n \<le> i then Inl IndexError
      else
        let k = nat (if i < 0 then i + n else i); c = length (a ! k) in
        if length row = c then Inr (a[k := row])
        else if length row = 1 then Inr (a[k := replicate c (hd row)])
        else Inl ValueError)"

text \<open>\<open>reshape\<close> of a flat array into \<open>r\<close> rows of \<open>c\<close> values.\<close>

fun reshape :: "nat \<Rightarrow> nat \<Rightarrow> 'a list \<Rightarrow> 'a list list" where
  "reshape 0 c xs = []"
| "reshape (Suc r) c xs = take c xs # reshape r c (drop c xs)"

text \<open>
  \<open>roll(a, shift)\<close> without an axis: the array is flattened, rolled and put back into
  its shape; the value at flat position \<open>j\<close> comes from position \<open>(j - shift) mod n\<close>.
\<close>

definition roll :: "'a list list \<Rightarrow> int \<Rightarrow> 'a list list" where
  "roll a shift =
     (let flat = concat a; n = length flat in
      if n = 0 then a
      else reshape (length a) (length (hd a)) (rotate (nat ((- shift) mod int n)) flat))"

subsection \<open>SciPy: interp1d\<close>

text \<open>
  An interpolator object maps a frequency to a value, or raises (a frequency outside
  the fitted range). Calling it on an array evaluates it at every element, so the result
  has the shape of the argument.
\<close>

type_synonym interp = "real \<Rightarrow> error + sample"

fun call :: "interp \<Rightarrow> real list \<Rightarrow> error + sample list" where
  "call f [] = Inr []"
| "call f (t # ts) =
     (case f t of
        Inl e \<Rightarrow> Inl e
      | Inr v \<Rightarrow> (case call f ts of Inl e \<Rightarrow> Inl e | Inr vs \<Rightarrow> Inr (v # vs)))"

text \<open>
  \<open>interp1d(x, y, kind = ...)\<close> raises ValueError when \<open>x\<close> and \<open>y\<close> differ in length
  and fits the interpolant otherwise. The fit itself is SciPy's and is a parameter
  \<open>kind\<close> of the model (the script asks for \<open>'cubic'\<close>); it may raise too.
\<close>

type_synonym fit = "real list \<Rightarrow> sample list \<Rightarrow> error + interp"

definition interp1d :: "fit \<Rightarrow> real list \<Rightarrow> sample list \<Rightarrow> error + interp" where
  "interp1d kind x y = (if length x \<noteq> length y then Inl ValueError else kind x y)"

subsection \<open>VesnaSpectrumPlot\<close>

text \<open>
  The fields of the object. \<open>image_data\<close> is the array held by \<open>self.image\<close>, which
  is what \<open>canvas.draw()\<close> renders; the other plotting calls have no state of their own
  here. \<open>interpolator\<close> is unset until the first callback.
\<close>

record plot =
  A :: "sample list list"
  x1 :: "real list"
  x2 :: "real list"
  line :: int
  image_data :: "sample list list"
  interpolator :: "interp option"

text \<open>
  The first array that \<open>__init__\<close> binds to \<open>self.A\<close> and hands to \<open>imshow\<close>, for
  the colour scale: every row runs from -100 to -20. \<open>self.A\<close> is then bound to a new
  array of -100, which replaces the first one in the image.
\<close>

definition scale_array :: "sample list list" where
  "scale_array = replicate 256 (map Finite (linspace (- 100) (- 20) 256))"

text \<open>
  \<open>__init__(start_freq, end_freq, step)\<close>, called with integers by \<open>main\<close>. In
  Python 2 the quotient of two integers is their floor division, and it raises
  ZeroDivisionError for a zero step; \<open>linspace\<close> rejects a negative count.
\<close>

definition init :: "int \<Rightarrow> int \<Rightarrow> int \<Rightarrow> error + plot" where
  "init start_freq end_freq step =
     (if step = 0 then Inl ZeroDivisionError
      else
        let nsteps = (end_freq - start_freq) div step + 1 in
        if nsteps < 0 then Inl ValueError
        else Inr \<lparr>
          A = replicate 256 (replicate 256 (Finite (- 100))),
          x1 = linspace (real_of_int start_freq) (real_of_int end_freq) (nat nsteps),
          x2 = linspace (real_of_int start_freq) (real_of_int end_freq) 256,
          line = 0,
          image_data = replicate 256 (replicate 256 (Finite (- 100))),
          interpolator = None \<rparr>)"

text \<open>
  \<open>callback(sweep_config, sweep)\<close>; \<open>sweep_config\<close> is not used and of the sweep only
  \<open>sweep.data\<close>. The result is the exception raised or the value returned, with the
  object as the call leaves it.
\<close>

definition callback :: "fit \<Rightarrow> plot \<Rightarrow> sample list \<Rightarrow> (error + bool) \<times> plot" where
  "callback kind p data =
     (case interp1d kind (x1 p) data of
        Inl e \<Rightarrow> (Inl e, p)
      | Inr f \<Rightarrow>
          let p1 = p\<lparr>interpolator := Some f\<rparr> in
          if length data < 256 then
            (case call f (x2 p1) of
               Inl e \<Rightarrow> (Inl e, p1)
             | Inr row \<Rightarrow>
                 (case setitem (A p1) (line p1) row of
                    Inl e \<Rightarrow> (Inl e, p1)
                  | Inr a \<Rightarrow>
                      let p2 = p1\<lparr>A := a, image_data := a\<rparr> in
                      if line p2 > 254 then (Inr True, p2\<lparr>A := roll (A p2) (- 256)\<rparr>)
                      else (Inr True, p2\<lparr>line := line p2 + 1\<rparr>)))
          else (Inr False, p1))"

text \<open>The caller delivering sweeps one after another, whatever each call answers.\<close>

fun feed :: "fit \<Rightarrow> plot \<Rightarrow> sample list list \<Rightarrow> plot" where
  "feed kind p [] = p"
| "feed kind p (d # ds) = feed kind (snd (callback kind p d)) ds"

text \<open>
  The row that \<open>callback\<close> computes for a sweep: the interpolator is built from the
  source axis and the samples and called on the target axis. A sweep is valid when it
  has fewer than 256 samples and this gives a row.
\<close>

definition resample :: "fit \<Rightarrow> real list \<Rightarrow> real list \<Rightarrow> sample list \<Rightarrow> error + sample list" where
  "resample kind xs xt data =
     (case interp1d kind xs data of Inl e \<Rightarrow> Inl e | Inr f \<Rightarrow> call f xt)"

subsection \<open>A concrete fit and concrete sweeps\<close>

text \<open>
  Closed instances need a fit that can be evaluated. \<open>linear_fit\<close> needs two points
  and raises outside the range of the axis, as \<open>interp1d\<close> does. Through finite samples
  over an ascending axis it is the piecewise-linear interpolant (interp1d's
  \<open>kind = 'linear'\<close>). Samples are not checked: as with interp1d's splines, one NaN
  among the samples makes every value NaN; an infinity is treated alike.
\<close>

fun pw_linear :: "real list \<Rightarrow> real list \<Rightarrow> real \<Rightarrow> real" where
  "pw_linear (a # b # xs) (u # v # ys) t =
     (if t \<le> b then u + (v - u) * ((t - a) / (b - a)) else pw_linear (b # xs) (v # ys) t)"
| "pw_linear xs ys t = (case ys of [] \<Rightarrow> 0 | u # _ \<Rightarrow> u)"

fun is_finite :: "sample \<Rightarrow> bool" where
  "is_finite (Finite r) = True"
| "is_finite v = False"

fun number :: "sample \<Rightarrow> real" where
  "number (Finite r) = r"
| "number v = 0"

definition linear_fit :: fit where
  "linear_fit x y =
     (if length x < 2 then Inl ValueError
      else Inr (\<lambda>t. if t < hd x \<or> last x < t then Inl ValueError
                    else if list_all is_finite y then Inr (Finite (pw_linear x (map number y) t))
                    else Inr NaN))"

text \<open>
  The plot that \<open>main\<close> builds from its default options (554 MHz to 570 MHz in steps of
  2 MHz, nine source points), and a stream of sweeps for it: sweep number \<open>k\<close>, counted
  from 1, reads \<open>k\<close> at each of its nine points.
\<close>

definition default_plot :: plot where
  "default_plot = projr (init 554000000 570000000 2000000)"

definition ramp :: "nat \<Rightarrow> sample list list" where
  "ramp n = map (\<lambda>k. replicate 9 (Finite (real (Suc k)))) [0..<n]"


text \<open>
  A plot whose source axis has 256 points: 554 MHz to 554.51 MHz in steps of 2 kHz.
\<close>

definition fine_plot :: plot where
  "fine_plot = projr (init 554000000 554510000 2000)"

section \<open>Lemmas about the library functions\<close>

lemma length_linspace: "length (linspace a b n) = n"
  by (simp add: linspace_def)

lemma call_length: "call f xs = Inr ys \<Longrightarrow> length ys = length xs"
  by (induction xs arbitrary: ys) (auto split: sum.splits)

lemma reshape_concat:
  "\<forall>r\<in>set a. length r = c \<Longrightarrow> reshape (length a) c (concat a) = a"
  by (induction a) auto

lemma roll_rows:
  assumes "a \<noteq> []" and "\<forall>r\<in>set a. length r = c" and "0 < c"
  shows "roll a (- int c) = rotate1 a"
proof -
  from assms(1) obtain r rs where a: "a = r # rs" by (cases a) auto
  have lr: "length r = c" using assms(2) a by simp
  have rs: "\<forall>r\<in>set (rs @ [r]). length r = c" using assms(2) a by auto
  have n: "length (concat a) \<noteq> 0" using a lr assms(3) by auto
  have "rotate (nat ((- (- int c)) mod int (length (concat a)))) (concat a)
          = rotate (c mod length (concat a)) (concat a)"
    by (simp add: nat_mod_distrib flip: of_nat_mod)
  also have "\<dots> = rotate c (concat a)" by (simp add: rotate_conv_mod [symmetric])
  also have "\<dots> = concat rs @ r" using lr a by (simp add: rotate_append [of r, unfolded lr])
  finally have rot: "rotate (nat ((- (- int c)) mod int (length (concat a)))) (concat a) = concat (rs @ [r])"
    by simp
  have hd: "length (hd a) = c" and len: "length a = length (rs @ [r])" using a lr by simp_all
  have "roll a (- int c) = reshape (length a) (length (hd a))
          (rotate (nat ((- (- int c)) mod int (length (concat a)))) (concat a))"
    unfolding roll_def Let_def using n by (simp only: if_False)
  also have "\<dots> = reshape (length (rs @ [r])) c (concat (rs @ [r]))"
    by (simp only: rot hd len)
  also have "\<dots> = rs @ [r]" using rs by (rule reshape_concat)
  finally show ?thesis using a by simp
qed

lemma call_map: "\<forall>t\<in>set xs. f t = Inr (g t) \<Longrightarrow> call f xs = Inr (map g xs)"
  by (induction xs) auto


lemma hd_linspace: "0 < n \<Longrightarrow> hd (linspace a b n) = a"
  by (simp add: linspace_def hd_map)

lemma last_linspace: "1 < n \<Longrightarrow> last (linspace a b n) = b"
  by (simp add: linspace_def last_map)

lemma linspace_bounds:
  assumes "a \<le> b" and "t \<in> set (linspace a b n)"
  shows "a \<le> t \<and> t \<le> b"
proof (cases "n = 1")
  case True
  then show ?thesis using assms by (simp add: linspace_def)
next
  case False
  define d where "d = (b - a) / real (n - 1)"
  from assms(2) False obtain i where i: "i < n" and t: "t = a + real i * d"
    by (auto simp: linspace_def d_def)
  have n: "1 < n" using i False by simp
  have d: "0 \<le> d" using assms(1) by (simp add: d_def)
  have "real i * d \<le> real (n - 1) * d"
    using i d by (intro mult_right_mono) auto
  also have "\<dots> = b - a" using n by (simp add: d_def)
  finally have up: "real i * d \<le> b - a" .
  have lo: "0 \<le> real i * d" using d by (intro mult_nonneg_nonneg) auto
  from up lo show ?thesis unfolding t by simp
qed

lemma nth_linspace:
  "i < n \<Longrightarrow> linspace a b n ! i = a + real i * ((b - a) / real (n - 1))"
  by (auto simp: linspace_def)


lemma pw_linear_const:
  "ys \<noteq> [] \<Longrightarrow> \<forall>v\<in>set ys. v = c \<Longrightarrow> pw_linear xs ys t = c"
  by (induction xs ys t rule: pw_linear.induct) (auto split: list.splits)



lemma resample_linear_const:
  assumes "a \<le> b" and "2 \<le> n" and "0 < m"
  shows "resample linear_fit (linspace a b n) (linspace a b m) (replicate n (Finite c)) =
           Inr (replicate m (Finite c))"
proof -
  let ?x = "linspace a b n" and ?y = "replicate n (Finite c)"
  let ?f = "\<lambda>t. if t < hd ?x \<or> last ?x < t then Inl ValueError
                else if list_all is_finite ?y then Inr (Finite (pw_linear ?x (map number ?y) t))
                else Inr NaN"
  have i: "interp1d linear_fit ?x ?y = Inr ?f"
    using assms(2) by (simp add: interp1d_def linear_fit_def length_linspace)
  have fin: "list_all is_finite ?y" by (simp add: list_all_iff)
  have "\<forall>t\<in>set (linspace a b m). ?f t = Inr ((\<lambda>_. Finite c) t)"
  proof
    fix t assume "t \<in> set (linspace a b m)"
    then have "a \<le> t \<and> t \<le> b" using assms(1) by (rule linspace_bounds [rotated])
    moreover have "pw_linear ?x (map number ?y) t = c"
      using assms(2) by (intro pw_linear_const) auto
    ultimately show "?f t = Inr (Finite c)"
      using assms(2) fin by (simp add: hd_linspace last_linspace)
  qed
  then have "call ?f (linspace a b m) = Inr (map (\<lambda>_. Finite c) (linspace a b m))"
    by (rule call_map)
  then show ?thesis using i by (simp add: resample_def map_replicate_const length_linspace)
qed

lemma resample_linear_nan:
  assumes "a \<le> b" and "2 \<le> n" and "length y = n" and "\<not> list_all is_finite y"
  shows "resample linear_fit (linspace a b n) (linspace a b m) y = Inr (replicate m NaN)"
proof -
  let ?x = "linspace a b n"
  let ?f = "\<lambda>t. if t < hd ?x \<or> last ?x < t then Inl ValueError
                else if list_all is_finite y then Inr (Finite (pw_linear ?x (map number y) t))
                else Inr NaN"
  have i: "interp1d linear_fit ?x y = Inr ?f"
    using assms(2,3) by (simp add: interp1d_def linear_fit_def length_linspace)
  have "\<forall>t\<in>set (linspace a b m). ?f t = Inr ((\<lambda>_. NaN) t)"
  proof
    fix t assume "t \<in> set (linspace a b m)"
    then have "a \<le> t \<and> t \<le> b" using assms(1) by (rule linspace_bounds [rotated])
    then show "?f t = Inr NaN"
      using assms(2,4) by (simp add: hd_linspace last_linspace)
  qed
  then have "call ?f (linspace a b m) = Inr (map (\<lambda>_. NaN) (linspace a b m))"
    by (rule call_map)
  then show ?thesis using i by (simp add: resample_def map_replicate_const length_linspace)
qed


lemma update_at_length: "length xs = n \<Longrightarrow> (xs @ x # ys)[n := y] = xs @ y # ys"
  by auto

lemma setitem_ok:
  "0 \<le> i \<Longrightarrow> i < int (length a) \<Longrightarrow> length (a ! nat i) = length row \<Longrightarrow>
     setitem a i row = Inr (a[nat i := row])"
  by (simp add: setitem_def Let_def)

lemma setitem_square:
  assumes "length a = 256" and "\<forall>r\<in>set a. length r = 256" and "0 \<le> i" and "i < 256"
  shows "setitem a i row =
     (if length row = 256 then Inr (a[nat i := row])
      else if length row = 1 then Inr (a[nat i := replicate 256 (hd row)])
      else Inl ValueError)"
proof -
  have "length (a ! nat i) = 256" using assms by simp
  then show ?thesis using assms(1,3,4) by (simp add: setitem_def Let_def)
qed

lemma setitem_shape:
  assumes "setitem a i row = Inr b" and "\<forall>r\<in>set a. length r = c"
  shows "length b = length a \<and> (\<forall>r\<in>set b. length r = c)"
proof -
  define k where "k = nat (if i < 0 then i + int (length a) else i)"
  from assms(1) have k: "k < length a"
    by (auto simp: setitem_def Let_def k_def split: if_splits)
  then have c: "length (a ! k) = c" using assms(2) by simp
  from assms(1) have "b = a[k := row] \<and> length row = c \<or> b = a[k := replicate c (hd row)]"
    unfolding setitem_def Let_def k_def [symmetric] c by (auto split: if_splits)
  then show ?thesis
    using assms(2) by (auto dest!: subsetD [OF set_update_subset_insert])
qed

section \<open>Lemmas about the callback\<close>

lemma callback_axes:
  "x1 (snd (callback kind p d)) = x1 p" "x2 (snd (callback kind p d)) = x2 p"
  by (simp_all add: callback_def Let_def split: sum.splits)

lemma feed_axes: "x1 (feed kind p ds) = x1 p \<and> x2 (feed kind p ds) = x2 p"
  by (induction ds arbitrary: p) (simp_all add: callback_axes)

lemma feed_snoc: "feed kind p (ds @ [d]) = snd (callback kind (feed kind p ds) d)"
  by (induction ds arbitrary: p) simp_all

lemma resample_Inr:
  "resample kind xs xt d = Inr row \<longleftrightarrow> (\<exists>f. interp1d kind xs d = Inr f \<and> call f xt = Inr row)"
  by (simp add: resample_def split: sum.splits)

lemma resample_length: "resample kind xs xt d = Inr row \<Longrightarrow> length row = length xt"
  by (auto simp: resample_Inr dest: call_length)

lemma callback_write:
  assumes "resample kind (x1 p) (x2 p) d = Inr row" and "length d < 256"
    and "setitem (A p) (line p) row = Inr a"
  shows "fst (callback kind p d) = Inr True"
    and "image_data (snd (callback kind p d)) = a"
    and "A (snd (callback kind p d)) = (if line p > 254 then roll a (- 256) else a)"
    and "line (snd (callback kind p d)) = (if line p > 254 then line p else line p + 1)"
  using assms by (auto simp: resample_Inr callback_def Let_def)

lemma feed_rows:
  assumes p0: "A p0 = replicate 256 s" "length s = 256" "line p0 = 0" "image_data p0 = A p0"
      "length (x2 p0) = 256"
    and short: "\<forall>d\<in>set ds. length d < 256"
    and rows: "map (resample kind (x1 p0) (x2 p0)) ds = map Inr rows"
  shows "(length rows < 256 \<longrightarrow>
            A (feed kind p0 ds) = rows @ replicate (256 - length rows) s \<and>
            line (feed kind p0 ds) = int (length rows) \<and>
            image_data (feed kind p0 ds) = A (feed kind p0 ds)) \<and>
         (256 \<le> length rows \<longrightarrow>
            image_data (feed kind p0 ds) = drop (length rows - 256) rows \<and>
            A (feed kind p0 ds) = rotate1 (drop (length rows - 256) rows) \<and>
            line (feed kind p0 ds) = 255)"
  using short rows
proof (induction ds arbitrary: rows rule: rev_induct)
  case Nil
  then show ?case using p0 by simp
next
  case (snoc d ds)
  from snoc.prems(2) have len: "length rows = Suc (length ds)"
    by (metis length_map length_append_singleton)
  then obtain rs r where rows: "rows = rs @ [r]" and lrs: "length rs = length ds"
    by (metis append_butlast_last_id length_butlast diff_Suc_1 list.size(3) nat.simps(3))
  from snoc.prems(2) rows lrs
  have rs: "map (resample kind (x1 p0) (x2 p0)) ds = map Inr rs"
    and r: "resample kind (x1 p0) (x2 p0) d = Inr r"
    by simp_all
  define p where "p = feed kind p0 ds"
  have ax: "x1 p = x1 p0" "x2 p = x2 p0" by (simp_all add: p_def feed_axes)
  have lr: "length r = 256" using r p0(5) by (simp add: resample_length)
  have allr: "\<forall>q\<in>set rs. length q = 256"
  proof
    fix q assume "q \<in> set rs"
    then have "Inr q \<in> set (map (resample kind (x1 p0) (x2 p0)) ds)" unfolding rs by simp
    then obtain e where "resample kind (x1 p0) (x2 p0) e = Inr q" by auto
    then show "length q = 256" using p0(5) by (simp add: resample_length)
  qed
  have d: "length d < 256" using snoc.prems(1) by simp
  have IH: "(length rs < 256 \<longrightarrow>
            A p = rs @ replicate (256 - length rs) s \<and> line p = int (length rs) \<and>
            image_data p = A p) \<and>
         (256 \<le> length rs \<longrightarrow>
            image_data p = drop (length rs - 256) rs \<and>
            A p = rotate1 (drop (length rs - 256) rs) \<and> line p = 255)"
    unfolding p_def using snoc.IH [OF _ rs] snoc.prems(1) by simp
  have step: "feed kind p0 (ds @ [d]) = snd (callback kind p d)"
    by (simp add: feed_snoc p_def)
  have rd: "resample kind (x1 p) (x2 p) d = Inr r" using r ax by simp
  consider (fill) "length rs < 255" | (last) "length rs = 255" | (full) "256 \<le> length rs"
    by linarith
  then show ?case
  proof cases
    case fill
    with IH have ap: "A p = rs @ replicate (256 - length rs) s" and lp: "line p = int (length rs)"
      by simp_all
    have rep: "replicate (256 - length rs) s = s # replicate (255 - length rs) s"
      using fill by (simp add: Suc_diff_le flip: replicate_Suc)
    have set: "setitem (A p) (line p) r = Inr (rs @ r # replicate (255 - length rs) s)"
      using fill lr p0(2) by (subst setitem_ok) (simp_all add: ap lp rep nth_append update_at_length)
    show ?thesis
      unfolding step rows using callback_write [OF rd d set] fill lp by simp
  next
    case last
    with IH have ap: "A p = rs @ [s]" and lp: "line p = 255"
      by simp_all
    have set: "setitem (A p) (line p) r = Inr (rs @ [r])"
      using last lr p0(2) by (subst setitem_ok) (simp_all add: ap lp nth_append update_at_length)
    have "roll (rs @ [r]) (- int 256) = rotate1 (rs @ [r])"
      using allr lr by (intro roll_rows) auto
    then show ?thesis
      unfolding step rows using callback_write [OF rd d set] last lp by simp
  next
    case full
    define w where "w = drop (length rs - 256) rs"
    have lw: "length w = 256" using full by (simp add: w_def)
    then obtain h t where w: "w = h # t" by (cases w) auto
    have lt: "length t = 255" using lw w by simp
    have allw: "\<forall>q\<in>set w. length q = 256" using allr by (auto simp: w_def dest: in_set_dropD)
    from full IH have ap: "A p = t @ [h]" and lp: "line p = 255"
      by (simp_all add: w_def [symmetric] w)
    have set: "setitem (A p) (line p) r = Inr (t @ [r])"
      using lt lr allw w by (subst setitem_ok) (simp_all add: ap lp nth_append update_at_length)
    have dr: "drop (length (rs @ [r]) - 256) (rs @ [r]) = t @ [r]"
    proof -
      have "drop (Suc (length rs - 256)) rs = t"
        using w by (simp add: w_def flip: drop_Suc tl_drop) (metis drop_Suc list.sel(3) tl_drop)
      moreover have "length rs - 255 = Suc (length rs - 256)" using full by linarith
      ultimately show ?thesis using full by simp
    qed
    have "roll (t @ [r]) (- int 256) = rotate1 (t @ [r])"
      using allw lr w by (intro roll_rows) auto
    then show ?thesis
      unfolding step rows dr using callback_write [OF rd d set] full lp 
      by (simp del: length_append_singleton)
  qed
qed

lemma callback_shape:
  assumes "length (A p) = 256" and "\<forall>r\<in>set (A p). length r = 256"
  shows "length (A (snd (callback kind p d))) = 256 \<and>
         (\<forall>r\<in>set (A (snd (callback kind p d))). length r = 256)"
proof -
  have roll: "roll b (- 256) = rotate1 b"
    if "length b = 256" and "\<forall>r\<in>set b. length r = 256" for b :: "sample list list"
  proof -
    from that(1) have "b \<noteq> []" by auto
    from roll_rows [OF this that(2)] show ?thesis by simp
  qed
  show ?thesis
    using assms
    by (auto simp: callback_def Let_def roll split: sum.splits dest: setitem_shape)
qed

lemma feed_shape:
  "length (A p) = 256 \<Longrightarrow> \<forall>r\<in>set (A p). length r = 256 \<Longrightarrow>
     length (A (feed kind p ds)) = 256 \<and> (\<forall>r\<in>set (A (feed kind p ds)). length r = 256)"
proof (induction ds arbitrary: p)
  case Nil
  then show ?case by simp
next
  case (Cons d ds)
  from callback_shape [OF Cons.prems, of kind d]
  have "length (A (snd (callback kind p d))) = 256"
    and "\<forall>r\<in>set (A (snd (callback kind p d))). length r = 256" by simp_all
  from Cons.IH [OF this] show ?case by simp
qed

lemma callback_line:
  "0 \<le> line p \<Longrightarrow> line p < 256 \<Longrightarrow>
     0 \<le> line (snd (callback kind p d)) \<and> line (snd (callback kind p d)) < 256"
  by (auto simp: callback_def Let_def split: sum.splits)

lemma feed_line:
  "0 \<le> line p \<Longrightarrow> line p < 256 \<Longrightarrow>
     0 \<le> line (feed kind p ds) \<and> line (feed kind p ds) < 256"
proof (induction ds arbitrary: p)
  case Nil
  then show ?case by simp
next
  case (Cons d ds)
  from callback_line [OF Cons.prems, of kind d]
  have "0 \<le> line (snd (callback kind p d))" and "line (snd (callback kind p d)) < 256"
    by simp_all
  from Cons.IH [OF this] show ?case by simp
qed

lemma init_fields:
  assumes "init start_freq end_freq step = Inr p"
  shows "A p = replicate 256 (replicate 256 (Finite (- 100)))" and "line p = 0"
    and "image_data p = A p" and "length (x2 p) = 256"
  using assms by (auto simp: init_def Let_def length_linspace split: if_splits)


section \<open>Lemmas about the concrete plots and sweeps\<close>

lemma init_default:
  "init 554000000 570000000 2000000 = Inr default_plot"
  "default_plot = \<lparr>A = replicate 256 (replicate 256 (Finite (- 100))),
      x1 = linspace 554000000 570000000 9, x2 = linspace 554000000 570000000 256,
      line = 0, image_data = replicate 256 (replicate 256 (Finite (- 100))), interpolator = None\<rparr>"
  by (simp_all add: default_plot_def init_def)

lemma default_plot_fields:
  "A default_plot = replicate 256 (replicate 256 (Finite (- 100)))"
  "x1 default_plot = linspace 554000000 570000000 9"
  "x2 default_plot = linspace 554000000 570000000 256"
  "line default_plot = 0"
  "image_data default_plot = replicate 256 (replicate 256 (Finite (- 100)))"
  by (simp_all add: init_default(2))

lemma resample_default:
  "resample linear_fit (x1 default_plot) (x2 default_plot) (replicate 9 (Finite c)) = Inr (replicate 256 (Finite c))"
  unfolding default_plot_fields by (rule resample_linear_const) simp_all

lemma fine_plot_fields:
  "init 554000000 554510000 2000 = Inr fine_plot"
  "A fine_plot = replicate 256 (replicate 256 (Finite (- 100)))"
  "x1 fine_plot = linspace 554000000 554510000 256"
  "line fine_plot = 0"
  by (simp_all add: fine_plot_def init_def)

lemma length_ramp: "length (ramp n) = n"
  by (simp add: ramp_def)

lemma ramp_short: "\<forall>d\<in>set (ramp n). length d < 256"
  by (auto simp: ramp_def)

lemma ramp_rows:
  "map (resample linear_fit (x1 default_plot) (x2 default_plot)) (ramp n) =
     map Inr (map (\<lambda>k. replicate 256 (Finite (real (Suc k)))) [0..<n])"
  by (simp add: ramp_def resample_default)

lemma feed_ramp:
  "n < 256 \<Longrightarrow> A (feed linear_fit default_plot (ramp n)) =
      map (\<lambda>k. replicate 256 (Finite (real (Suc k)))) [0..<n] @ replicate (256 - n) (replicate 256 (Finite (- 100)))"
  "n < 256 \<Longrightarrow> line (feed linear_fit default_plot (ramp n)) = int n"
  "256 \<le> n \<Longrightarrow> image_data (feed linear_fit default_plot (ramp n)) =
      drop (n - 256) (map (\<lambda>k. replicate 256 (Finite (real (Suc k)))) [0..<n])"
  "256 \<le> n \<Longrightarrow> A (feed linear_fit default_plot (ramp n)) =
      rotate1 (drop (n - 256) (map (\<lambda>k. replicate 256 (Finite (real (Suc k)))) [0..<n]))"
  "256 \<le> n \<Longrightarrow> line (feed linear_fit default_plot (ramp n)) = 255"
  using feed_rows [of default_plot "replicate 256 (Finite (- 100))" "ramp n" linear_fit
      "map (\<lambda>k. replicate 256 (Finite (real (Suc k)))) [0..<n]", OF _ _ _ _ _ ramp_short ramp_rows]
  by (simp_all add: default_plot_fields length_linspace)

lemma feed_ramp_axes:
  "resample linear_fit (x1 (feed linear_fit default_plot ds)) (x2 (feed linear_fit default_plot ds))
     (replicate 9 (Finite c)) = Inr (replicate 256 (Finite c))"
  by (simp add: feed_axes resample_default)

lemma resample_default_nan:
  "resample linear_fit (x1 default_plot) (x2 default_plot) (NaN # replicate 8 (Finite c)) =
     Inr (replicate 256 NaN)"
  "resample linear_fit (x1 default_plot) (x2 default_plot) (replicate 8 (Finite c) @ [NaN]) =
     Inr (replicate 256 NaN)"
  unfolding default_plot_fields by (rule resample_linear_nan; simp)+

lemma setitem_default:
  "length row = 256 \<Longrightarrow>
     setitem (A default_plot) (line default_plot) row = Inr ((A default_plot)[0 := row])"
  using setitem_ok [of 0 "A default_plot" row] by (simp add: default_plot_fields)

section \<open>The claims\<close>

subsection \<open>The initial state\<close>

text \<open>
  C6, as the code has it. When \<open>__init__\<close> returns, the plot has an array of 256
  rows of 256 values, each of them -100, and its cursor on row 0; the first valid sweep
  returns True and its resampled row replaces row 0, every other row staying at -100.
  The construction succeeds for every nonzero step that gives a non-negative number of
  source points.
\<close>

theorem init_state:
  assumes "step \<noteq> 0" and "0 \<le> (end_freq - start_freq) div step + 1"
  shows "\<exists>p. init start_freq end_freq step = Inr p \<and>
           A p = replicate 256 (replicate 256 (Finite (- 100))) \<and> line p = 0 \<and>
           (\<forall>kind d row. length d < 256 \<longrightarrow> resample kind (x1 p) (x2 p) d = Inr row \<longrightarrow>
              fst (callback kind p d) = Inr True \<and>
              A (snd (callback kind p d)) = (replicate 256 (replicate 256 (Finite (- 100))))[0 := row])"
proof -
  from assms obtain p where p: "init start_freq end_freq step = Inr p"
    by (auto simp: init_def Let_def)
  note f = init_fields [OF p]
  have "fst (callback kind p d) = Inr True \<and>
        A (snd (callback kind p d)) = (replicate 256 (replicate 256 (Finite (- 100))))[0 := row]"
    if d: "length d < 256" and r: "resample kind (x1 p) (x2 p) d = Inr row" for kind d row
  proof -
    have lr: "length row = 256" using r f(4) by (simp add: resample_length)
    have set: "setitem (A p) (line p) row = Inr ((A p)[nat 0 := row])"
      unfolding f(2) using lr by (intro setitem_ok) (simp_all add: f(1))
    show ?thesis using callback_write [OF r d set] f(1,2) by simp
  qed
  then show ?thesis using p f(1,2) by blast
qed

text \<open>
  The default plot, and a sweep of nine readings of -90 dBm.
\<close>

theorem init_state_witness:
  "init 554000000 570000000 2000000 = Inr default_plot \<and>
   A default_plot = replicate 256 (replicate 256 (Finite (- 100))) \<and> line default_plot = 0 \<and>
   fst (callback linear_fit default_plot (replicate 9 (Finite (- 90)))) = Inr True \<and>
   A (snd (callback linear_fit default_plot (replicate 9 (Finite (- 90))))) =
     (replicate 256 (replicate 256 (Finite (- 100))))[0 := replicate 256 (Finite (- 90))]"
proof -
  have "(2000000::int) \<noteq> 0" and "(0::int) \<le> (570000000 - 554000000) div 2000000 + 1"
    by simp_all
  from init_state [OF this] obtain p where
    p: "init 554000000 570000000 2000000 = Inr p" and
    a: "A p = replicate 256 (replicate 256 (Finite (- 100)))" "line p = 0" and
    c: "\<And>kind d row. length d < 256 \<Longrightarrow> resample kind (x1 p) (x2 p) d = Inr row \<Longrightarrow>
          fst (callback kind p d) = Inr True \<and>
          A (snd (callback kind p d)) = (replicate 256 (replicate 256 (Finite (- 100))))[0 := row]"
    by blast
  have eq: "p = default_plot" using p by (simp add: init_default(1))
  show ?thesis
    using p a c [of "replicate 9 (Finite (- 90))" linear_fit "replicate 256 (Finite (- 90))"] resample_default [of "- 90"]
    unfolding eq by simp
qed

text \<open>
  The array is not allocated once. The first array bound to \<open>self.A\<close> is the colour
  scale, not the array of -100 that the new plot holds. And the 256th sweep rolls: the
  image keeps the array that was written and drawn, with sweep 1 in row 0, while
  \<open>self.A\<close> is the new array that \<open>roll\<close> returned, with sweep 2 in row 0.
\<close>

theorem allocated_once_counterexample:
  "scale_array \<noteq> A default_plot \<and>
   image_data (feed linear_fit default_plot (ramp 256)) ! 0 = replicate 256 (Finite 1) \<and>
   A (feed linear_fit default_plot (ramp 256)) ! 0 = replicate 256 (Finite 2) \<and>
   A (feed linear_fit default_plot (ramp 256)) \<noteq> image_data (feed linear_fit default_plot (ramp 256))"
proof -
  have "scale_array ! 0 ! 255 = Finite (- 20)"
    using nth_linspace [of 255 256 "- 100" "- 20"] by (simp add: scale_array_def length_linspace)
  moreover have "A default_plot ! 0 ! 255 = Finite (- 100)"
    by (simp add: default_plot_fields)
  ultimately have 1: "scale_array \<noteq> A default_plot" by auto
  have 2: "image_data (feed linear_fit default_plot (ramp 256)) ! 0 = replicate 256 (Finite 1)"
    by (simp add: feed_ramp(3))
  have 3: "A (feed linear_fit default_plot (ramp 256)) ! 0 = replicate 256 (Finite 2)"
    by (simp add: feed_ramp(4) nth_rotate1)
  have "replicate 256 (Finite 2) \<noteq> replicate 256 (Finite 1)"
    by simp
  with 2 3 have 4: "A (feed linear_fit default_plot (ramp 256)) \<noteq>
      image_data (feed linear_fit default_plot (ramp 256))" by metis
  from 1 2 3 4 show ?thesis by simp
qed

subsection \<open>The shape of the array\<close>

text \<open>
  C10. After construction and after any sequence of callbacks, whether they write a row,
  wrap, skip or raise, the array has 256 rows of 256 values.
\<close>

theorem shape_preserved:
  assumes "init start_freq end_freq step = Inr p0"
  shows "length (A (feed kind p0 ds)) = 256 \<and> (\<forall>r\<in>set (A (feed kind p0 ds)). length r = 256)"
proof -
  have "A p0 = replicate 256 (replicate 256 (Finite (- 100)))" using assms by (rule init_fields)
  then have "length (A p0) = 256" and "\<forall>r\<in>set (A p0). length r = 256" by simp_all
  then show ?thesis by (rule feed_shape)
qed

text \<open>
  The default plot before any sweep, after a valid, a mismatched, a too long and another
  valid sweep, and after 300 valid sweeps.
\<close>

theorem shape_preserved_witness:
  "map length (A default_plot) = replicate 256 256 \<and>
   map length (A (feed linear_fit default_plot
      [replicate 9 (Finite (- 90)), replicate 300 (Finite (- 90)), replicate 256 (Finite (- 90)), replicate 9 (Finite (- 80))])) =
     replicate 256 256 \<and>
   map length (A (feed linear_fit default_plot (ramp 300))) = replicate 256 256"
proof -
  have eq: "map length xs = replicate 256 256"
    if "length xs = 256 \<and> (\<forall>r\<in>set xs. length r = 256)" for xs :: "sample list list"
  proof -
    have "map length xs = map (\<lambda>_. 256) xs" using that by (intro map_cong) auto
    also have "\<dots> = replicate (length xs) 256" by (rule map_replicate_const)
    finally show ?thesis using that by simp
  qed
  note s = shape_preserved [OF init_default(1), of linear_fit]
  from eq [OF s [of "[]"]]
    eq [OF s [of "[replicate 9 (Finite (- 90)), replicate 300 (Finite (- 90)), replicate 256 (Finite (- 90)), replicate 9 (Finite (- 80))]"]]
    eq [OF s [of "ramp 300"]]
  show ?thesis by simp
qed

subsection \<open>The cursor\<close>

text \<open>
  C3. The cursor stays within 0 to 255 whatever sweeps are delivered. After \<open>n\<close>
  valid sweeps it is \<open>min n 255\<close>: up to 255 sweeps the array still fills, the sweeps
  in its first rows and -100 in the others; the 256th sweep is the first to roll the
  array, and from then on the cursor stays at 255 while each sweep is drawn as the last
  row of the last 256 and the array is rolled by one row.
\<close>

theorem cursor_invariant:
  assumes "init start_freq end_freq step = Inr p0"
  shows "(0 \<le> line (feed kind p0 ds) \<and> line (feed kind p0 ds) < 256) \<and>
         ((\<forall>d\<in>set ds. length d < 256) \<longrightarrow>
          map (resample kind (x1 p0) (x2 p0)) ds = map Inr rows \<longrightarrow>
            line (feed kind p0 ds) = min (int (length ds)) 255 \<and>
            (length ds \<le> 255 \<longrightarrow>
               A (feed kind p0 ds) = rows @ replicate (256 - length ds) (replicate 256 (Finite (- 100)))) \<and>
            (256 \<le> length ds \<longrightarrow>
               image_data (feed kind p0 ds) = drop (length ds - 256) rows \<and>
               A (feed kind p0 ds) = rotate1 (drop (length ds - 256) rows)))"
proof -
  note f = init_fields [OF assms]
  have "0 \<le> line p0" and "line p0 < 256" using f(2) by simp_all
  then have inv: "0 \<le> line (feed kind p0 ds) \<and> line (feed kind p0 ds) < 256"
    by (rule feed_line)
  have run: "line (feed kind p0 ds) = min (int (length ds)) 255 \<and>
            (length ds \<le> 255 \<longrightarrow>
               A (feed kind p0 ds) = rows @ replicate (256 - length ds) (replicate 256 (Finite (- 100)))) \<and>
            (256 \<le> length ds \<longrightarrow>
               image_data (feed kind p0 ds) = drop (length ds - 256) rows \<and>
               A (feed kind p0 ds) = rotate1 (drop (length ds - 256) rows))"
    if short: "\<forall>d\<in>set ds. length d < 256"
      and rows: "map (resample kind (x1 p0) (x2 p0)) ds = map Inr rows"
  proof -
    have len: "length rows = length ds" using rows by (metis length_map)
    from feed_rows [OF f(1) _ f(2,3,4) short rows] show ?thesis
      unfolding len by auto
  qed
  show ?thesis using inv run by blast
qed

text \<open>
  The default plot after 255, 256 and 300 sweeps of the ramp, and after three sweeps of
  which only the second is valid.
\<close>

theorem cursor_invariant_witness:
  "line default_plot = 0 \<and>
   line (feed linear_fit default_plot (ramp 255)) = 255 \<and>
   A (feed linear_fit default_plot (ramp 255)) ! 255 = replicate 256 (Finite (- 100)) \<and>
   line (feed linear_fit default_plot (ramp 256)) = 255 \<and>
   A (feed linear_fit default_plot (ramp 256)) ! 255 = replicate 256 (Finite 1) \<and>
   line (feed linear_fit default_plot (ramp 300)) = 255 \<and>
   0 \<le> line (feed linear_fit default_plot [replicate 300 (Finite 0), replicate 9 (Finite 1), replicate 5 (Finite 2)]) \<and>
   line (feed linear_fit default_plot [replicate 300 (Finite 0), replicate 9 (Finite 1), replicate 5 (Finite 2)]) < 256"
proof -
  note t = cursor_invariant [OF init_default(1), of linear_fit]
  note r = t [THEN conjunct2, rule_format, OF ramp_short [rule_format] ramp_rows, unfolded length_ramp]
  have a: "line (feed linear_fit default_plot (ramp 255)) = 255"
    and b: "A (feed linear_fit default_plot (ramp 255)) ! 255 = replicate 256 (Finite (- 100))"
    using r [of 255] by (simp_all add: nth_append)
  have c: "line (feed linear_fit default_plot (ramp 256)) = 255"
    and d: "A (feed linear_fit default_plot (ramp 256)) ! 255 = replicate 256 (Finite 1)"
    using r [of 256] by (simp_all add: nth_rotate1)
  have e: "line (feed linear_fit default_plot (ramp 300)) = 255"
    using r [of 300] by simp
  from t [of "[replicate 300 (Finite 0), replicate 9 (Finite 1), replicate 5 (Finite 2)]" "[]"] a b c d e
  show ?thesis by (simp add: default_plot_fields)
qed

subsection \<open>The wrap\<close>

text \<open>
  C8. With the cursor at 255 a valid sweep writes its row into row 255, draws the array
  and then rotates it by one row: each row \<open>i\<close> up to 254 takes what row \<open>i + 1\<close>
  held after the write, so row 254 takes the new row, and row 255 takes the former
  row 0. The oldest row stays there until the next valid sweep writes row 255.
\<close>

theorem wrap_is_rotation:
  assumes "line p = 255" and "length (A p) = 256" and "\<forall>r\<in>set (A p). length r = 256"
    and "length (x2 p) = 256" and "length d < 256"
    and "resample kind (x1 p) (x2 p) d = Inr row"
  shows "fst (callback kind p d) = Inr True \<and>
         image_data (snd (callback kind p d)) = (A p)[255 := row] \<and>
         A (snd (callback kind p d)) = rotate1 ((A p)[255 := row]) \<and>
         (\<forall>i<255. A (snd (callback kind p d)) ! i = (A p)[255 := row] ! (i + 1)) \<and>
         A (snd (callback kind p d)) ! 254 = row \<and>
         A (snd (callback kind p d)) ! 255 = A p ! 0 \<and>
         line (snd (callback kind p d)) = 255 \<and>
         (\<forall>d' row'. length d' < 256 \<longrightarrow> resample kind (x1 p) (x2 p) d' = Inr row' \<longrightarrow>
            image_data (snd (callback kind (snd (callback kind p d)) d')) =
              (A (snd (callback kind p d)))[255 := row'])"
proof -
  define q where "q = snd (callback kind p d)"
  define b where "b = (A p)[255 := row]"
  have lr: "length row = 256" using assms(4,6) by (simp add: resample_length)
  have set: "setitem (A p) (line p) row = Inr b"
    unfolding b_def using assms(1,2,3) lr by (subst setitem_ok) simp_all
  have lb: "length b = 256" and sb: "\<forall>r\<in>set b. length r = 256"
    using setitem_shape [OF set assms(3)] assms(2) by simp_all
  have "b \<noteq> []" using lb by auto
  from roll_rows [OF this sb] have roll: "roll b (- 256) = rotate1 b" by simp
  note w = callback_write [OF assms(6,5) set]
  have 1: "fst (callback kind p d) = Inr True" by (rule w)
  have 2: "image_data q = b" unfolding q_def by (rule w)
  have 3: "A q = rotate1 b" unfolding q_def using w(3) assms(1) roll by simp
  have 4: "\<forall>i<255. A q ! i = b ! (i + 1)" using lb by (simp add: 3 nth_rotate1)
  have 5: "A q ! 254 = row" using lb assms(2) by (simp add: 3 nth_rotate1 b_def)
  have 6: "A q ! 255 = A p ! 0" using lb by (simp add: 3 nth_rotate1 b_def)
  have 7: "line q = 255" unfolding q_def using w(4) assms(1) by simp
  have 8: "image_data (snd (callback kind q d')) = (A q)[255 := row']"
    if d': "length d' < 256" and r': "resample kind (x1 p) (x2 p) d' = Inr row'" for d' row'
  proof -
    have ax: "x1 q = x1 p" "x2 q = x2 p" by (simp_all add: q_def callback_axes)
    have lr': "length row' = 256" using assms(4) r' by (simp add: resample_length)
    have lq: "length (A q) = 256" and sq: "\<forall>r\<in>set (A q). length r = 256"
      using lb sb by (simp_all add: 3)
    have set': "setitem (A q) (line q) row' = Inr ((A q)[255 := row'])"
      using lq sq lr' by (subst setitem_ok) (simp_all add: 7)
    from r' have "resample kind (x1 q) (x2 q) d' = Inr row'" by (simp add: ax)
    from callback_write(2) [OF this d' set'] show ?thesis .
  qed
  show ?thesis
    using 1 2 3 4 5 6 7 8 unfolding q_def [symmetric] b_def [symmetric] by blast
qed

text \<open>
  The default plot after 255 sweeps of the ramp, and sweep 256.
\<close>

theorem wrap_is_rotation_witness:
  "line (feed linear_fit default_plot (ramp 255)) = 255 \<and>
   A (feed linear_fit default_plot (ramp 255)) ! 0 = replicate 256 (Finite 1) \<and>
   A (snd (callback linear_fit (feed linear_fit default_plot (ramp 255)) (replicate 9 (Finite 256)))) ! 0 =
     replicate 256 (Finite 2) \<and>
   A (snd (callback linear_fit (feed linear_fit default_plot (ramp 255)) (replicate 9 (Finite 256)))) ! 254 =
     replicate 256 (Finite 256) \<and>
   A (snd (callback linear_fit (feed linear_fit default_plot (ramp 255)) (replicate 9 (Finite 256)))) ! 255 =
     replicate 256 (Finite 1)"
proof -
  define p where "p = feed linear_fit default_plot (ramp 255)"
  have a: "A p = map (\<lambda>k. replicate 256 (Finite (real (Suc k)))) [0..<255] @ [replicate 256 (Finite (- 100))]"
    unfolding p_def by (simp add: feed_ramp(1))
  have 1: "line p = 255" unfolding p_def by (simp add: feed_ramp(2))
  have 2: "length (A p) = 256" by (simp add: a)
  have 3: "\<forall>r\<in>set (A p). length r = 256" by (auto simp: a)
  have 4: "length (x2 p) = 256"
    unfolding p_def by (simp add: feed_axes default_plot_fields length_linspace)
  have 5: "length (replicate 9 (Finite 256)) < 256" by simp
  have 6: "resample linear_fit (x1 p) (x2 p) (replicate 9 (Finite 256)) = Inr (replicate 256 (Finite 256))"
    unfolding p_def by (rule feed_ramp_axes)
  define q where "q = snd (callback linear_fit p (replicate 9 (Finite 256)))"
  note w = wrap_is_rotation [OF 1 2 3 4 5 6, folded q_def]
  from w have n: "\<forall>i<255. A q ! i = (A p)[255 := replicate 256 (Finite 256)] ! (i + 1)"
    and c254: "A q ! 254 = replicate 256 (Finite 256)" and c255: "A q ! 255 = A p ! 0"
    by blast+
  have p0: "A p ! 0 = replicate 256 (Finite 1)" and p1: "A p ! 1 = replicate 256 (Finite 2)"
    by (simp_all add: a nth_append)
  have c0: "A q ! 0 = replicate 256 (Finite 2)" using n [rule_format, of 0] p1 2 by simp
  show ?thesis
    unfolding p_def [symmetric] q_def [symmetric] using 1 p0 c0 c254 c255 by simp
qed

subsection \<open>The sliding window\<close>

text \<open>
  C1, as the code has it. After \<open>T \<ge> 256\<close> valid sweeps the array that the last callback
  drew holds the last 256 sweeps in time order, the oldest in row 0 and the newest in
  row 255. The array the callback leaves in \<open>A\<close> is that one rotated by one row: rows
  0 to 254 hold the last 255 sweeps in time order and row 255 holds the oldest of the
  256.
\<close>

theorem sliding_window:
  assumes "init start_freq end_freq step = Inr p0"
    and "\<forall>d\<in>set ds. length d < 256"
    and "map (resample kind (x1 p0) (x2 p0)) ds = map Inr rows"
    and "256 \<le> length ds"
  shows "image_data (feed kind p0 ds) = drop (length ds - 256) rows \<and>
         (\<forall>i<256. image_data (feed kind p0 ds) ! i = rows ! (length ds - 256 + i)) \<and>
         A (feed kind p0 ds) = drop (length ds - 255) rows @ [rows ! (length ds - 256)] \<and>
         (\<forall>i<255. A (feed kind p0 ds) ! i = rows ! (length ds - 255 + i)) \<and>
         A (feed kind p0 ds) ! 255 = rows ! (length ds - 256)"
proof -
  have len: "length rows = length ds" using assms(3) by (metis length_map)
  note f = init_fields [OF assms(1)]
  from feed_rows [OF f(1) _ f(2,3,4) assms(2,3)] assms(4) len
  have im: "image_data (feed kind p0 ds) = drop (length ds - 256) rows"
    and a: "A (feed kind p0 ds) = rotate1 (drop (length ds - 256) rows)"
    by simp_all
  define w where "w = drop (length ds - 256) rows"
  have lw: "length w = 256" using assms(4) len by (simp add: w_def)
  then obtain h t where w: "w = h # t" by (cases w) auto
  have h: "h = rows ! (length ds - 256)"
    using w assms(4) len by (metis w_def hd_drop_conv_nth list.sel(1) diff_less zero_less_numeral
        less_le_trans length_greater_0_conv list.size(3) not_numeral_le_zero)
  have "Suc (length ds - 256) = length ds - 255" using assms(4) by linarith
  then have t: "t = drop (length ds - 255) rows"
    using w by (metis w_def drop_Suc list.sel(3) tl_drop)
  have a': "A (feed kind p0 ds) = drop (length ds - 255) rows @ [rows ! (length ds - 256)]"
    using a w h t by (simp add: w_def [symmetric])
  have i1: "\<forall>i<256. image_data (feed kind p0 ds) ! i = rows ! (length ds - 256 + i)"
    using im len assms(4) by simp
  have i2: "\<forall>i<255. A (feed kind p0 ds) ! i = rows ! (length ds - 255 + i)"
    using len assms(4) by (simp add: a' nth_append)
  have i3: "A (feed kind p0 ds) ! 255 = rows ! (length ds - 256)"
    using len assms(4) by (simp add: a' nth_append)
  show ?thesis using im a' i1 i2 i3 by simp
qed

text \<open>
  300 sweeps of the ramp: the drawn array runs from sweep 45 to sweep 300, and \<open>A\<close>
  has sweep 300 in row 254.
\<close>

theorem sliding_window_witness:
  "image_data (feed linear_fit default_plot (ramp 300)) ! 0 = replicate 256 (Finite 45) \<and>
   image_data (feed linear_fit default_plot (ramp 300)) ! 255 = replicate 256 (Finite 300) \<and>
   A (feed linear_fit default_plot (ramp 300)) ! 254 = replicate 256 (Finite 300) \<and>
   A (feed linear_fit default_plot (ramp 300)) ! 1 = replicate 256 (Finite 47)"
proof -
  have l: "256 \<le> length (ramp 300)" by (simp add: length_ramp)
  note sw = sliding_window [OF init_default(1) ramp_short ramp_rows l, unfolded length_ramp]
  note im = sw [THEN conjunct2, THEN conjunct1]
  note a = sw [THEN conjunct2, THEN conjunct2, THEN conjunct2, THEN conjunct1]
  from im [rule_format, of 0] im [rule_format, of 255] a [rule_format, of 254] a [rule_format, of 1]
  show ?thesis by simp
qed

text \<open>
  After the same 300 sweeps row 0 of \<open>A\<close> holds sweep 46, not sweep 45, and row 255
  holds sweep 45, not sweep 300.
\<close>

theorem sliding_window_counterexample:
  "A (feed linear_fit default_plot (ramp 300)) ! 0 = replicate 256 (Finite 46) \<and>
   A (feed linear_fit default_plot (ramp 300)) ! 0 \<noteq> replicate 256 (Finite 45) \<and>
   A (feed linear_fit default_plot (ramp 300)) ! 255 = replicate 256 (Finite 45) \<and>
   A (feed linear_fit default_plot (ramp 300)) ! 255 \<noteq> replicate 256 (Finite 300)"
  by (simp add: feed_ramp(4) nth_rotate1)

subsection \<open>The skip\<close>

text \<open>
  C2, as the code has it. A sweep of 256 samples or more from which \<open>interp1d\<close> builds
  an interpolator, so one as long as the source axis, makes the callback return False;
  the array and the cursor are unchanged and only the interpolator is replaced.
\<close>

theorem skip_unchanged:
  assumes "256 \<le> length d" and "interp1d kind (x1 p) d = Inr f"
  shows "callback kind p d = (Inr False, p\<lparr>interpolator := Some f\<rparr>) \<and>
         A (snd (callback kind p d)) = A p \<and> line (snd (callback kind p d)) = line p"
  using assms by (simp add: callback_def Let_def)

text \<open>
  A sweep of exactly 256 samples on the plot with 256 source points.
\<close>

theorem skip_unchanged_witness:
  "length (x1 fine_plot) = 256 \<and>
   fst (callback linear_fit fine_plot (replicate 256 (Finite (- 90)))) = Inr False \<and>
   A (snd (callback linear_fit fine_plot (replicate 256 (Finite (- 90))))) = A fine_plot \<and>
   line (snd (callback linear_fit fine_plot (replicate 256 (Finite (- 90))))) = line fine_plot"
proof -
  have "\<exists>f. interp1d linear_fit (x1 fine_plot) (replicate 256 (Finite (- 90))) = Inr f"
    by (simp add: interp1d_def linear_fit_def fine_plot_fields length_linspace)
  then obtain f where f: "interp1d linear_fit (x1 fine_plot) (replicate 256 (Finite (- 90))) = Inr f" ..
  have "256 \<le> length (replicate 256 (Finite (- 90)))" by simp
  from skip_unchanged [OF this f] show ?thesis
    by (simp add: fine_plot_fields length_linspace)
qed

text \<open>
  On the default plot, with nine source points, a sweep of 256 samples does not return
  False: \<open>interp1d\<close> raises ValueError.
\<close>

theorem skip_counterexample:
  "fst (callback linear_fit default_plot (replicate 256 (Finite (- 90)))) = Inl ValueError"
  by (simp add: callback_def interp1d_def default_plot_fields length_linspace)

subsection \<open>The interpolator is built before the guard\<close>

text \<open>
  C9. Every callback builds the interpolator first. A sweep whose length differs from
  the source axis raises ValueError out of the callback, whatever its length, and so
  does any other failure of \<open>interp1d\<close>; the object is left as it was. When
  \<open>interp1d\<close> succeeds the new interpolator is stored, also for a sweep of 256
  samples or more, which then returns False.
\<close>

theorem interpolator_before_guard:
  "(length d \<noteq> length (x1 p) \<longrightarrow> callback kind p d = (Inl ValueError, p)) \<and>
   (\<forall>e. interp1d kind (x1 p) d = Inl e \<longrightarrow> callback kind p d = (Inl e, p)) \<and>
   (\<forall>f. interp1d kind (x1 p) d = Inr f \<longrightarrow>
      interpolator (snd (callback kind p d)) = Some f \<and>
      (256 \<le> length d \<longrightarrow> fst (callback kind p d) = Inr False))"
proof (intro conjI allI impI)
  assume "length d \<noteq> length (x1 p)"
  then show "callback kind p d = (Inl ValueError, p)"
    by (simp add: callback_def interp1d_def)
next
  fix e assume "interp1d kind (x1 p) d = Inl e"
  then show "callback kind p d = (Inl e, p)" by (simp add: callback_def)
next
  fix f assume "interp1d kind (x1 p) d = Inr f"
  then show "interpolator (snd (callback kind p d)) = Some f"
    by (simp add: callback_def Let_def split: sum.splits)
next
  fix f assume "interp1d kind (x1 p) d = Inr f" and "256 \<le> length d"
  then show "fst (callback kind p d) = Inr False" by (simp add: callback_def Let_def)
qed

text \<open>
  On the default plot sweeps of 300 and of 5 samples raise; on the plot with 256 source
  points a sweep of 256 samples stores an interpolator and returns False.
\<close>

theorem interpolator_before_guard_witness:
  "callback linear_fit default_plot (replicate 300 (Finite (- 90))) = (Inl ValueError, default_plot) \<and>
   callback linear_fit default_plot (replicate 5 (Finite (- 90))) = (Inl ValueError, default_plot) \<and>
   interpolator (snd (callback linear_fit fine_plot (replicate 256 (Finite (- 90))))) \<noteq> None \<and>
   fst (callback linear_fit fine_plot (replicate 256 (Finite (- 90)))) = Inr False"
proof -
  have "\<exists>f. interp1d linear_fit (x1 fine_plot) (replicate 256 (Finite (- 90))) = Inr f"
    by (simp add: interp1d_def linear_fit_def fine_plot_fields length_linspace)
  then obtain f where f: "interp1d linear_fit (x1 fine_plot) (replicate 256 (Finite (- 90))) = Inr f" ..
  show ?thesis
    using interpolator_before_guard [of "replicate 300 (Finite (- 90))" default_plot linear_fit]
      interpolator_before_guard [of "replicate 5 (Finite (- 90))" default_plot linear_fit]
      interpolator_before_guard [of "replicate 256 (Finite (- 90))" fine_plot linear_fit] f
    by (simp add: default_plot_fields length_linspace)
qed

subsection \<open>Malformed sweeps\<close>

text \<open>
  C4, as the code has it. The callback checks nothing itself. A sweep whose length
  differs from the source axis makes \<open>interp1d\<close> raise ValueError, which reaches the
  caller with the object unchanged; so does any exception of the fit or of the
  interpolator call, with the array and the cursor unchanged. A sweep for which they
  raise nothing is written like any other, whatever its values, finite or not.
\<close>

theorem malformed_sweep:
  "(length d \<noteq> length (x1 p) \<longrightarrow> callback kind p d = (Inl ValueError, p)) \<and>
   (\<forall>e. length d < 256 \<longrightarrow> resample kind (x1 p) (x2 p) d = Inl e \<longrightarrow>
      fst (callback kind p d) = Inl e \<and>
      A (snd (callback kind p d)) = A p \<and> line (snd (callback kind p d)) = line p) \<and>
   (\<forall>row a. length d < 256 \<longrightarrow> resample kind (x1 p) (x2 p) d = Inr row \<longrightarrow>
      setitem (A p) (line p) row = Inr a \<longrightarrow>
      fst (callback kind p d) = Inr True \<and> image_data (snd (callback kind p d)) = a)"
proof (intro conjI allI impI)
  assume "length d \<noteq> length (x1 p)"
  then show "callback kind p d = (Inl ValueError, p)"
    by (simp add: callback_def interp1d_def)
next
  fix e assume d: "length d < 256" and r: "resample kind (x1 p) (x2 p) d = Inl e"
  from d r show "fst (callback kind p d) = Inl e"
    by (auto simp: callback_def resample_def Let_def split: sum.splits)
  from d r show "A (snd (callback kind p d)) = A p"
    by (auto simp: callback_def resample_def Let_def split: sum.splits)
  from d r show "line (snd (callback kind p d)) = line p"
    by (auto simp: callback_def resample_def Let_def split: sum.splits)
next
  fix row a
  assume d: "length d < 256" and r: "resample kind (x1 p) (x2 p) d = Inr row"
    and s: "setitem (A p) (line p) row = Inr a"
  from callback_write(1) [OF r d s] show "fst (callback kind p d) = Inr True" .
  from callback_write(2) [OF r d s] show "image_data (snd (callback kind p d)) = a" .
qed

text \<open>
  On the default plot five samples raise ValueError, and nine samples ending with a NaN
  are written.
\<close>

theorem malformed_sweep_witness:
  "callback linear_fit default_plot (replicate 5 NaN) = (Inl ValueError, default_plot) \<and>
   fst (callback linear_fit default_plot (replicate 8 (Finite (- 90)) @ [NaN])) = Inr True \<and>
   image_data (snd (callback linear_fit default_plot (replicate 8 (Finite (- 90)) @ [NaN]))) ! 0 =
     replicate 256 NaN"
proof -
  have l: "length (replicate 8 (Finite (- 90)) @ [NaN]) < 256" by simp
  note t1 = malformed_sweep [of "replicate 5 NaN" default_plot linear_fit, THEN conjunct1]
  note t3 = malformed_sweep [of "replicate 8 (Finite (- 90)) @ [NaN]" default_plot linear_fit,
      THEN conjunct2, THEN conjunct2, rule_format, OF l resample_default_nan(2) setitem_default]
  from t1 t3 show ?thesis
    by (simp add: default_plot_fields length_linspace)
qed

text \<open>
  On the default plot a sweep of nine samples of which the first is NaN is not rejected:
  the callback returns True and row 0 of the array is all NaN.
\<close>

theorem malformed_sweep_counterexample:
  "fst (callback linear_fit default_plot (NaN # replicate 8 (Finite (- 90)))) = Inr True \<and>
   A (snd (callback linear_fit default_plot (NaN # replicate 8 (Finite (- 90))))) ! 0 =
     replicate 256 NaN \<and>
   A (snd (callback linear_fit default_plot (NaN # replicate 8 (Finite (- 90))))) \<noteq> A default_plot"
proof -
  have l: "length (NaN # replicate 8 (Finite (- 90))) < 256" by simp
  have s: "setitem (A default_plot) (line default_plot) (replicate 256 NaN) =
             Inr ((A default_plot)[0 := replicate 256 NaN])"
    by (rule setitem_default) simp
  note w = callback_write [OF resample_default_nan(1) l s]
  have a: "A (snd (callback linear_fit default_plot (NaN # replicate 8 (Finite (- 90))))) =
             (A default_plot)[0 := replicate 256 NaN]"
    using w(3) by (simp add: default_plot_fields)
  have n: "(A default_plot)[0 := replicate 256 NaN] ! 0 = replicate 256 NaN"
    by (simp add: default_plot_fields)
  have "A default_plot ! 0 \<noteq> replicate 256 NaN"
    by (simp add: default_plot_fields replicate_eq_replicate)
  with n have "(A default_plot)[0 := replicate 256 NaN] \<noteq> A default_plot" by metis
  with w(1) a n show ?thesis by simp
qed

subsection \<open>The resampled row and its end values\<close>



subsection \<open>The resampled row depends on the axes and the samples only\<close>

text \<open>
  C7. Two plots with the same axes, whatever their arrays, cursors and stored
  interpolators (each array 256 by 256 and each cursor within it), answer the same sweep
  alike: the same result or exception, the same row written under the cursor, which is
  the resampled row when the target axis has 256 points, and the same interpolator
  stored. The axes are never changed, and a skipped sweep changes nothing but the stored
  interpolator.
\<close>

theorem resample_deterministic:
  assumes "x1 p = x1 q" and "x2 p = x2 q"
    and "length (A p) = 256" and "\<forall>r\<in>set (A p). length r = 256"
    and "0 \<le> line p" and "line p < 256"
    and "length (A q) = 256" and "\<forall>r\<in>set (A q). length r = 256"
    and "0 \<le> line q" and "line q < 256"
  shows "fst (callback kind p d) = fst (callback kind q d) \<and>
         (fst (callback kind p d) = Inr True \<longrightarrow>
            image_data (snd (callback kind p d)) ! nat (line p) =
            image_data (snd (callback kind q d)) ! nat (line q)) \<and>
         (\<forall>row. fst (callback kind p d) = Inr True \<longrightarrow> length (x2 p) = 256 \<longrightarrow>
            resample kind (x1 p) (x2 p) d = Inr row \<longrightarrow>
            image_data (snd (callback kind p d)) ! nat (line p) = row) \<and>
         (\<forall>b. fst (callback kind p d) = Inr b \<longrightarrow>
            interpolator (snd (callback kind p d)) = interpolator (snd (callback kind q d))) \<and>
         (fst (callback kind p d) = Inr False \<longrightarrow>
            (\<exists>f. snd (callback kind p d) = p\<lparr>interpolator := Some f\<rparr>)) \<and>
         x1 (snd (callback kind p d)) = x1 p \<and> x2 (snd (callback kind p d)) = x2 p"
proof -
  note sp = setitem_square [OF assms(3,4,5,6)] and sq = setitem_square [OF assms(7,8,9,10)]
  have kp: "nat (line p) < length (A p)" and kq: "nat (line q) < length (A q)"
    using assms(3,5,6,7,9,10) by simp_all
  show ?thesis
  proof (cases "interp1d kind (x1 p) d")
    case (Inl e)
    then show ?thesis using assms(1) by (simp add: callback_def)
  next
    case (Inr f)
    show ?thesis
    proof (cases "length d < 256")
      case False
      then show ?thesis using Inr assms(1) by (auto simp: callback_def Let_def)
    next
      case True
      show ?thesis
      proof (cases "call f (x2 p)")
        case (Inl e)
        then show ?thesis using Inr True assms(1,2) by (simp add: callback_def Let_def)
      next
        case r: (Inr row)
        have res: "resample kind (x1 p) (x2 p) d = Inr row"
          using Inr r by (simp add: resample_def)
        have "length row = length (x2 p)" using r by (rule call_length)
        then show ?thesis
          using Inr True r assms(1,2) kp kq res
          by (simp add: callback_def Let_def sp sq)
      qed
    qed
  qed
qed

text \<open>
  The default plot, fresh and after one sweep, given the same sweep of nine readings of
  5.
\<close>

theorem resample_deterministic_witness:
  "line (snd (callback linear_fit default_plot (replicate 9 (Finite 3)))) = 1 \<and>
   fst (callback linear_fit default_plot (replicate 9 (Finite 5))) = Inr True \<and>
   fst (callback linear_fit (snd (callback linear_fit default_plot (replicate 9 (Finite 3)))) (replicate 9 (Finite 5))) =
     Inr True \<and>
   image_data (snd (callback linear_fit default_plot (replicate 9 (Finite 5)))) ! 0 = replicate 256 (Finite 5) \<and>
   image_data (snd (callback linear_fit (snd (callback linear_fit default_plot (replicate 9 (Finite 3))))
       (replicate 9 (Finite 5)))) ! 1 = replicate 256 (Finite 5)"
proof -
  define q where "q = snd (callback linear_fit default_plot (replicate 9 (Finite 3)))"
  have set: "setitem (A default_plot) (line default_plot) (replicate 256 (Finite c)) =
               Inr ((A default_plot)[nat 0 := replicate 256 (Finite c)])" for c :: real
    unfolding default_plot_fields(4) by (intro setitem_ok) (simp_all add: default_plot_fields)
  have s9: "length (replicate 9 (Finite c)) < 256" for c :: real by simp
  note w3 = callback_write [OF resample_default s9 set, of 3, folded q_def]
  note w5 = callback_write [OF resample_default s9 set, of 5]
  have lq: "line q = 1" using w3(4) by (simp add: default_plot_fields)
  have ax: "x1 default_plot = x1 q" "x2 default_plot = x2 q"
    by (simp_all add: q_def callback_axes)
  have p1: "length (A default_plot) = 256" and p2: "\<forall>r\<in>set (A default_plot). length r = 256"
    and p3: "0 \<le> line default_plot" and p4: "line default_plot < 256"
    and x: "length (x2 default_plot) = 256"
    by (simp_all add: default_plot_fields length_linspace)
  from callback_shape [OF p1 p2, of linear_fit "replicate 9 (Finite 3)", folded q_def]
  have q1: "length (A q) = 256" and q2: "\<forall>r\<in>set (A q). length r = 256" by simp_all
  have q3: "0 \<le> line q" and q4: "line q < 256" by (simp_all add: lq)
  note t = resample_deterministic [OF ax p1 p2 p3 p4 q1 q2 q3 q4, of linear_fit "replicate 9 (Finite 5)"]
  from t have a: "fst (callback linear_fit default_plot (replicate 9 (Finite 5))) =
                  fst (callback linear_fit q (replicate 9 (Finite 5)))" by blast
  from t w5(1) have b: "image_data (snd (callback linear_fit default_plot (replicate 9 (Finite 5)))) ! nat (line default_plot) =
            image_data (snd (callback linear_fit q (replicate 9 (Finite 5)))) ! nat (line q)" by blast
  from t w5(1) x resample_default [of 5]
  have c: "image_data (snd (callback linear_fit default_plot (replicate 9 (Finite 5)))) ! nat (line default_plot) =
             replicate 256 (Finite 5)" by blast
  show ?thesis
    unfolding q_def [symmetric] using lq a b c w5(1) by (simp add: default_plot_fields)
qed

end
